theory Spec2Isabelle
  imports Main
begin

section \<open>Values exchanged with the collaborators\<close>

text \<open>
  The anchoring client (\<^verbatim>\<open>src/anchoring/index.js\<close>) talks to four collaborators that are
  loaded at the top of the file and are not part of it: \<^verbatim>\<open>bdns\<close> (the Service Locator),
  \<^verbatim>\<open>http\<close> (\<^verbatim>\<open>fetch\<close>, \<^verbatim>\<open>doPut\<close>), \<^verbatim>\<open>keyssi\<close> (identifier parsing), \<^verbatim>\<open>config\<close>, and
  \<^verbatim>\<open>cachedAnchoring\<close> (the Local Cache Bypass). Each of them is a field of the record
  \<open>env\<close> below, so every theorem holds for whatever they answer.
\<close>

text \<open>A keySSI / hashLinkSSI object, seen through the three getters the code calls.
  \<^verbatim>\<open>getDLDomain()\<close> may be \<^verbatim>\<open>undefined\<close> (\<open>None\<close>).\<close>

record ssi =
  getDLDomain :: "string option"
  getAnchorId :: string
  getIdentifier :: string

text \<open>What \<^verbatim>\<open>Response.json()\<close> can resolve to. The code looks at arrays only and hands
  their elements to \<^verbatim>\<open>keyssi.parse\<close>; numbers are kept as integers.\<close>

datatype json =
    JNull
  | JBool bool
  | JNumber int
  | JString string
  | JArray "json list"
  | JObject "(string \<times> json) list"

text \<open>The error object \<^verbatim>\<open>doPut\<close> hands to its callback: \<^verbatim>\<open>err.statusCode\<close> and
  \<^verbatim>\<open>err.message\<close>, each of which may be \<^verbatim>\<open>undefined\<close>.\<close>

record http_error =
  statusCode :: "int option"
  message :: "string option"

text \<open>The object built by \<^verbatim>\<open>reject({statusCode: ..., message: ...})\<close> in \<^verbatim>\<open>addVersion\<close>.\<close>

record rejection =
  reason_statusCode :: "int option"
  reason_message :: string

text \<open>Everything the callback can receive as its first argument: a bare string, an
  exception thrown by the runtime (named by the expression that threw), an error object
  produced by a collaborator, or the rejection object of a write.\<close>

datatype error =
    Message string
  | TypeError string
  | ServiceError string
  | PutRejected rejection

text \<open>The \<^verbatim>\<open>Response\<close> a fulfilled \<^verbatim>\<open>fetch\<close> carries, seen through the only member the
  code uses: the promise returned by \<^verbatim>\<open>json()\<close> either rejects (\<open>Inl\<close>) or resolves to the
  decoded body.\<close>

datatype response = Response (json_of: "error + json")

subsection \<open>Promises\<close>

text \<open>An entry of the array \<^verbatim>\<open>Promise.allSettled\<close> resolves to:
  \<^verbatim>\<open>{status: 'fulfilled', value}\<close> or \<^verbatim>\<open>{status: 'rejected', reason}\<close>.\<close>

datatype ('v, 'r) settled = Fulfilled 'v | Rejected 'r

text \<open>A request promise is described by the moment it settles and by how it settles.
  \<^verbatim>\<open>Promise.allSettled\<close> resolves once every promise has settled; its handler is what
  the model describes, so every promise here does settle.\<close>

record ('v, 'r) promise =
  settledAt :: nat
  outcome :: "('v, 'r) settled"

text \<open>\<^verbatim>\<open>Promise.allSettled(queries)\<close>: the results, in the order of \<^verbatim>\<open>queries\<close>.\<close>

definition allSettled :: "('v, 'r) promise list \<Rightarrow> ('v, 'r) settled list" where
  "allSettled queries = map outcome queries"

text \<open>\<^verbatim>\<open>response.status === 'fulfilled'\<close> and \<^verbatim>\<open>response.status === 'rejected'\<close>.\<close>

fun is_fulfilled :: "('v, 'r) settled \<Rightarrow> bool" where
  "is_fulfilled (Fulfilled v) = True"
| "is_fulfilled (Rejected r) = False"

fun is_rejected :: "('v, 'r) settled \<Rightarrow> bool" where
  "is_rejected (Fulfilled v) = False"
| "is_rejected (Rejected r) = True"

subsection \<open>Arguments, requests and what a call does\<close>

text \<open>An optional argument of the two entry points: left out (\<^verbatim>\<open>undefined\<close>), the
  callback given in its place (\<^verbatim>\<open>typeof x === 'function'\<close>), or a value.\<close>

datatype 'a arg = Undefined | Function | Given 'a

text \<open>The object literal \<^verbatim>\<open>body\<close> of \<^verbatim>\<open>addVersion\<close>. \<open>hash_last = None\<close> is \<^verbatim>\<open>null\<close>;
  \<open>None\<close> in the two proof fields is \<^verbatim>\<open>undefined\<close>, which \<^verbatim>\<open>JSON.stringify\<close> leaves out.
  The request keeps the object itself: \<^verbatim>\<open>JSON.stringify\<close> is a function of it.\<close>

record body =
  hash_last :: "string option"
  hash_new :: string
  zkpValue :: "string option"
  digitalProof :: "string option"

datatype request = GET string | PUT string body

datatype cached_call = CachedVersions string | CachedAddVersion string string

text \<open>How the callback is invoked: not at all, \<^verbatim>\<open>callback(err)\<close>, or
  \<^verbatim>\<open>callback(null, value)\<close>.\<close>

datatype 'a delivery = NotInvoked | Failed error | Succeeded 'a

text \<open>The observable behaviour of one call: the domains the Service Locator was asked
  for, the HTTP requests issued, the calls handed to the Local Cache Bypass, and the
  callback invocation.\<close>

record 'a run =
  located :: "string option list"
  requests :: "request list"
  cached :: "cached_call list"
  delivered :: "'a delivery"

text \<open>The reply of \<^verbatim>\<open>doPut\<close>: when its callback runs, and with \<^verbatim>\<open>(err, data)\<close>.\<close>

record put_reply =
  repliedAt :: nat
  reply :: "http_error + string"

text \<open>The collaborators. \<^verbatim>\<open>../moduleConstants\<close> is not among the sources, so the two
  constants read from it, \<^verbatim>\<open>constants.DOMAINS.VAULT\<close> and \<^verbatim>\<open>constants.CACHE.VAULT_TYPE\<close>,
  are parameters as well. Within one call a request is answered according to its URL
  (and body): \<open>fetch\<close> and \<open>doPut\<close> give, for each request, when and how it settles.\<close>

record env =
  DOMAINS_VAULT :: string
  CACHE_VAULT_TYPE :: string
  config_get :: "string \<Rightarrow> string option"
  getAnchoringServices :: "string option \<Rightarrow> error + string list"
  fetch :: "string \<Rightarrow> (response, error) promise"
  doPut :: "string \<Rightarrow> body \<Rightarrow> put_reply"
  keyssi_parse :: "json \<Rightarrow> error + ssi"
  cachedAnchoring_versions :: "string \<Rightarrow> ssi list delivery"
  cachedAnchoring_addVersion :: "string \<Rightarrow> string \<Rightarrow> string delivery"

section \<open>The read path: \<^verbatim>\<open>versions\<close>\<close>

text \<open>The test of lines 23 and 75, written out once for the statements below:
  \<^verbatim>\<open>dlDomain === constants.DOMAINS.VAULT && typeof config.get(constants.CACHE.VAULT_TYPE)
  !== "undefined"\<close>.\<close>

abbreviation local_bypass :: "env \<Rightarrow> ssi \<Rightarrow> bool" where
  "local_bypass env keySSI \<equiv>
     getDLDomain keySSI = Some (DOMAINS_VAULT env) \<and> config_get env (CACHE_VAULT_TYPE env) \<noteq> None"

text \<open>\<^verbatim>\<open>hlStrings.map(hlString => keyssi.parse(hlString))\<close>: the first element that
  \<^verbatim>\<open>parse\<close> throws on ends the map with that exception.\<close>

fun map_parse :: "(json \<Rightarrow> error + ssi) \<Rightarrow> json list \<Rightarrow> error + ssi list" where
  "map_parse parse [] = Inr []"
| "map_parse parse (hlString # rest) =
     (case parse hlString of
        Inl e \<Rightarrow> Inl e
      | Inr hashLink \<Rightarrow>
          (case map_parse parse rest of
             Inl e \<Rightarrow> Inl e
           | Inr hashLinks \<Rightarrow> Inr (hashLink # hashLinks)))"

text \<open>The handler of \<^verbatim>\<open>response.value.json().then(...)\<close> (lines 41-48). The promise it
  creates is not returned to the outer chain and has no rejection handler of its own:
  when \<^verbatim>\<open>json()\<close> rejects, when the decoded value has no \<^verbatim>\<open>map\<close> method, or when
  \<^verbatim>\<open>parse\<close> throws, nothing calls the callback.\<close>

definition decode_chain :: "env \<Rightarrow> response \<Rightarrow> ssi list delivery" where
  "decode_chain env value =
     (case json_of value of
        Inl e \<Rightarrow> NotInvoked
      | Inr hlStrings \<Rightarrow>
          (case hlStrings of
             JArray elements \<Rightarrow>
               (case map_parse (keyssi_parse env) elements of
                  Inl e \<Rightarrow> NotInvoked
                | Inr hashLinks \<Rightarrow> Succeeded hashLinks)
           | _ \<Rightarrow> NotInvoked))"

text \<open>The handler of \<^verbatim>\<open>Promise.allSettled(queries).then(...)\<close> with its \<^verbatim>\<open>.catch\<close>
  (lines 38-49). \<^verbatim>\<open>responses.find\<close> walks the array from index 0. When it finds
  nothing, \<^verbatim>\<open>response\<close> is \<^verbatim>\<open>undefined\<close> and reading \<^verbatim>\<open>response.value\<close> throws inside the
  handler, which the \<^verbatim>\<open>.catch\<close> turns into \<^verbatim>\<open>callback(err)\<close>. The case of a rejected
  entry is there for the case distinction to be complete: \<^verbatim>\<open>find\<close> returns only entries
  that pass its test (\<open>find_fulfilled_is_fulfilled\<close> below), and on such an entry
  \<^verbatim>\<open>value\<close> would be \<^verbatim>\<open>undefined\<close> and \<^verbatim>\<open>value.json\<close> would throw.\<close>

definition versions_then ::
  "env \<Rightarrow> (response, error) settled list \<Rightarrow> ssi list delivery" where
  "versions_then env responses =
     (case find is_fulfilled responses of
        None \<Rightarrow> Failed (TypeError ''response.value'')
      | Some (Rejected reason) \<Rightarrow> Failed (TypeError ''response.value.json'')
      | Some (Fulfilled value) \<Rightarrow> decode_chain env value)"

text \<open>The template literal \<^verbatim>\<open>`${service}/anchor/versions/${keySSI.getAnchorId()}`\<close>.\<close>

definition versions_url :: "ssi \<Rightarrow> string \<Rightarrow> string" where
  "versions_url keySSI service = service @ ''/anchor/versions/'' @ getAnchorId keySSI"

definition versions_queries :: "env \<Rightarrow> ssi \<Rightarrow> string list \<Rightarrow> (response, error) promise list" where
  "versions_queries env keySSI anchoringServicesArray =
     map (\<lambda>service. fetch env (versions_url keySSI service)) anchoringServicesArray"

text \<open>\<^verbatim>\<open>versions(keySSI, authToken, callback)\<close>. \<^verbatim>\<open>authToken\<close> is reset when the callback
  was passed in its place and is not read afterwards.\<close>

definition versions :: "env \<Rightarrow> ssi \<Rightarrow> string arg \<Rightarrow> ssi list run" where
  "versions env keySSI authToken =
     (let dlDomain = getDLDomain keySSI;
          anchorId = getAnchorId keySSI
      in if dlDomain = Some (DOMAINS_VAULT env) \<and> config_get env (CACHE_VAULT_TYPE env) \<noteq> None
         then \<lparr>located = [], requests = [], cached = [CachedVersions anchorId],
               delivered = cachedAnchoring_versions env anchorId\<rparr>
         else
           (case getAnchoringServices env (getDLDomain keySSI) of
              Inl err \<Rightarrow>
                \<lparr>located = [getDLDomain keySSI], requests = [], cached = [],
                 delivered = Failed err\<rparr>
            | Inr anchoringServicesArray \<Rightarrow>
                if length anchoringServicesArray = 0
                then \<lparr>located = [getDLDomain keySSI], requests = [], cached = [],
                      delivered = Failed (Message ''No anchoring service provided'')\<rparr>
                else
                  \<lparr>located = [getDLDomain keySSI],
                   requests = map (\<lambda>service. GET (versions_url keySSI service))
                                anchoringServicesArray,
                   cached = [],
                   delivered =
                     versions_then env
                       (allSettled (versions_queries env keySSI anchoringServicesArray))\<rparr>))"

section \<open>The write path: \<^verbatim>\<open>addVersion\<close>\<close>

text \<open>The object passed to \<^verbatim>\<open>reject\<close> (lines 100-103). The conditional operator binds
  weaker than \<^verbatim>\<open>||\<close>: the message is the conflict text for status 428 and
  \<^verbatim>\<open>err.message || 'Error'\<close> otherwise, where \<^verbatim>\<open>undefined\<close> and the empty string are
  falsy.\<close>

definition put_rejection :: "http_error \<Rightarrow> rejection" where
  "put_rejection err =
     \<lparr>reason_statusCode = statusCode err,
      reason_message =
        (if statusCode err = Some 428 then ''Unable to add alias: versions out of sync''
         else (case message err of
                 None \<Rightarrow> ''Error''
               | Some m \<Rightarrow> if m = [] then ''Error'' else m))\<rparr>"

text \<open>The promise built around one \<^verbatim>\<open>doPut\<close> call (lines 97-108): it settles when the
  callback of \<^verbatim>\<open>doPut\<close> runs, rejected when \<^verbatim>\<open>err\<close> is set and fulfilled with \<^verbatim>\<open>data\<close>
  otherwise.\<close>

definition put_promise :: "put_reply \<Rightarrow> (string, rejection) promise" where
  "put_promise r =
     \<lparr>settledAt = repliedAt r,
      outcome = (case reply r of
                   Inl err \<Rightarrow> Rejected (put_rejection err)
                 | Inr data \<Rightarrow> Fulfilled data)\<rparr>"

text \<open>The template literal \<^verbatim>\<open>`${service}/anchor/add/${anchorId}`\<close>.\<close>

definition add_url :: "string \<Rightarrow> string \<Rightarrow> string" where
  "add_url anchorId service = service @ ''/anchor/add/'' @ anchorId"

definition addVersion_queries ::
  "env \<Rightarrow> string \<Rightarrow> body \<Rightarrow> string list \<Rightarrow> (string, rejection) promise list" where
  "addVersion_queries env anchorId b anchoringServicesArray =
     map (\<lambda>service. put_promise (doPut env (add_url anchorId service) b))
       anchoringServicesArray"

text \<open>The handler of \<^verbatim>\<open>Promise.allSettled(queries).then(...)\<close> (lines 111-120). Both
  \<^verbatim>\<open>find\<close> calls walk \<^verbatim>\<open>responses\<close> from index 0. The second one runs only when no entry
  is fulfilled; on an array without a rejected entry either, reading
  \<^verbatim>\<open>rejected.reason\<close> throws in a chain that has no \<^verbatim>\<open>.catch\<close>. The two cases in
  which \<^verbatim>\<open>find\<close> would return an entry that fails its own test never arise
  (\<open>find_fulfilled_is_fulfilled\<close>, \<open>find_rejected_is_rejected\<close> below).\<close>

definition addVersion_then :: "(string, rejection) settled list \<Rightarrow> string delivery" where
  "addVersion_then responses =
     (case find is_fulfilled responses of
        None \<Rightarrow>
          (case find is_rejected responses of
             None \<Rightarrow> NotInvoked
           | Some (Rejected reason) \<Rightarrow> Failed (PutRejected reason)
           | Some (Fulfilled value) \<Rightarrow> NotInvoked)
      | Some (Fulfilled value) \<Rightarrow> Succeeded value
      | Some (Rejected reason) \<Rightarrow> NotInvoked)"

text \<open>The object literal of lines 87-94, after the two argument shifts of lines 63-71:
  a callback found in the place of \<^verbatim>\<open>lastHashLinkSSI\<close> or of \<^verbatim>\<open>zkpValue\<close> leaves that
  argument \<^verbatim>\<open>undefined\<close>.\<close>

definition addVersion_body ::
  "ssi \<Rightarrow> ssi arg \<Rightarrow> string arg \<Rightarrow> string option \<Rightarrow> body" where
  "addVersion_body newHashLinkSSI lastHashLinkSSI zkp dproof =
     \<lparr>hash_last = (case lastHashLinkSSI of
                     Given l \<Rightarrow> Some (getIdentifier l)
                   | _ \<Rightarrow> None),
      hash_new = getIdentifier newHashLinkSSI,
      zkpValue = (case zkp of Given z \<Rightarrow> Some z | _ \<Rightarrow> None),
      digitalProof = dproof\<rparr>"

text \<open>\<^verbatim>\<open>addVersion(keySSI, newHashLinkSSI, lastHashLinkSSI, zkpValue, digitalProof,
  callback)\<close>.\<close>

definition addVersion ::
  "env \<Rightarrow> ssi \<Rightarrow> ssi \<Rightarrow> ssi arg \<Rightarrow> string arg \<Rightarrow> string option \<Rightarrow> string run" where
  "addVersion env keySSI newHashLinkSSI lastHashLinkSSI zkp dproof =
     (let dlDomain = getDLDomain keySSI;
          anchorId = getAnchorId keySSI
      in if dlDomain = Some (DOMAINS_VAULT env) \<and> config_get env (CACHE_VAULT_TYPE env) \<noteq> None
         then \<lparr>located = [], requests = [],
               cached = [CachedAddVersion anchorId (getIdentifier newHashLinkSSI)],
               delivered =
                 cachedAnchoring_addVersion env anchorId (getIdentifier newHashLinkSSI)\<rparr>
         else
           (case getAnchoringServices env dlDomain of
              Inl err \<Rightarrow>
                \<lparr>located = [dlDomain], requests = [], cached = [], delivered = Failed err\<rparr>
            | Inr anchoringServicesArray \<Rightarrow>
                if length anchoringServicesArray = 0
                then \<lparr>located = [dlDomain], requests = [], cached = [],
                      delivered = Failed (Message ''No anchoring service provided'')\<rparr>
                else
                  (let b = addVersion_body newHashLinkSSI lastHashLinkSSI zkp dproof
                   in \<lparr>located = [dlDomain],
                        requests = map (\<lambda>service. PUT (add_url anchorId service) b)
                                     anchoringServicesArray,
                        cached = [],
                        delivered =
                          addVersion_then
                            (allSettled
                               (addVersion_queries env anchorId b anchoringServicesArray))\<rparr>)))"

section \<open>The selection rule as the specification words it\<close>

text \<open>The specification describes the selection as "the first fulfilled response in
  settlement order". \<open>settlement_order\<close> lists the settled results by the moment each
  promise settled (requests that settle at the same moment keep their list order), and
  \<open>first_fulfilled_in_settlement_order\<close> takes the first fulfilled one of that
  list. These two definitions follow the specification's words, not the code; they are
  compared with \<open>find is_fulfilled (allSettled queries)\<close>, which is what the code does.\<close>

definition settlement_order :: "('v, 'r) promise list \<Rightarrow> ('v, 'r) settled list" where
  "settlement_order queries = map outcome (sort_key settledAt queries)"

definition first_fulfilled_in_settlement_order ::
  "('v, 'r) promise list \<Rightarrow> ('v, 'r) settled option" where
  "first_fulfilled_in_settlement_order queries = find is_fulfilled (settlement_order queries)"

text \<open>The specification describes the message of a write rejection as the conflict
  text for status 428 and "its original message" for any other failure.
  \<open>message_as_specified\<close> follows these words (\<open>None\<close>: the error has no message); it is
  compared with \<open>reason_message (put_rejection err)\<close>, which is what the code builds.\<close>

definition message_as_specified :: "http_error \<Rightarrow> string option" where
  "message_as_specified err =
     (if statusCode err = Some 428 then Some ''Unable to add alias: versions out of sync''
      else message err)"

section \<open>The dossier builder: \<^verbatim>\<open>buildDossier\<close>\<close>

text \<open>
  \<^verbatim>\<open>src/dt/DossierBuilder.js\<close>. The builder decides between loading the DSU named in the
  seed file and creating a new one, and then hands the DSU to \<^verbatim>\<open>updateDossier\<close>, which
  runs the commands through the external command classes. The model follows
  \<^verbatim>\<open>buildDossier\<close>, \<^verbatim>\<open>builder\<close> and \<^verbatim>\<open>createDossier\<close> up to that hand-over: a run ends
  either with \<^verbatim>\<open>callback(err)\<close> or with the call \<^verbatim>\<open>updateDossier(bar, cfg, commands,
  callback)\<close>, recorded with its arguments. The DSU handle \<open>'bar\<close> is whatever the
  shared enclave returns.
\<close>

text \<open>The config object: \<^verbatim>\<open>seed\<close>, \<^verbatim>\<open>domain\<close> (either may be missing) and the flag
  \<^verbatim>\<open>skipFsWrite\<close>, which is unset until the builder sets it.\<close>

record cfg =
  seed :: "string option"
  domain :: "string option"
  skipFsWrite :: bool

text \<open>The first argument of \<^verbatim>\<open>buildDossier\<close>: an object whose constructor is named
  \<^verbatim>\<open>Archive\<close>, or a config.\<close>

datatype 'bar configOrDSU = Archive 'bar | Config cfg

text \<open>The two ways \<^verbatim>\<open>sharedEnclave.createDSU\<close> is called: with
  \<^verbatim>\<open>createTemplateSeedSSI(conf.domain)\<close>, or with an existing keySSI and
  \<^verbatim>\<open>{useSSIAsIdentifier: true}\<close>.\<close>

datatype seed_ssi = TemplateSeedSSI "string option" | UseSSIAsIdentifier ssi

datatype action =
    InitialiseBuildWallet
  | ReadFile "string option"
  | Parse string
  | GetSharedEnclave
  | CreateDSU seed_ssi
  | LoadDSU ssi

datatype 'bar ending =
    CallbackError error
  | UpdateDossier 'bar cfg "string list"

record 'bar build =
  actions :: "action list"
  ends :: "'bar ending"

text \<open>The collaborators of the builder. \<open>Some err\<close> in \<open>initialiseBuildWallet\<close> and
  \<open>getSharedEnclave\<close> is the error given to their callbacks; \<open>Inl\<close> in
  \<open>keySSISpace_parse\<close> is the exception \<^verbatim>\<open>parse\<close> throws.\<close>

record 'bar builder_env =
  initialiseBuildWallet :: "error option"
  readFile :: "string option \<Rightarrow> error + string"
  keySSISpace_parse :: "string \<Rightarrow> error + ssi"
  getSharedEnclave :: "error option"
  createDSU :: "seed_ssi \<Rightarrow> error + 'bar"
  loadDSU :: "ssi \<Rightarrow> error + 'bar"

text \<open>Actions done before a run are put in front of its own.\<close>

definition after :: "action list \<Rightarrow> 'bar build \<Rightarrow> 'bar build" where
  "after earlier r = r\<lparr>actions := earlier @ actions r\<rparr>"

text \<open>\<^verbatim>\<open>createDossier(conf, commands, callback)\<close> (lines 36-48).\<close>

definition createDossier :: "'bar builder_env \<Rightarrow> cfg \<Rightarrow> string list \<Rightarrow> 'bar build" where
  "createDossier env conf commands =
     (case getSharedEnclave env of
        Some err \<Rightarrow> \<lparr>actions = [GetSharedEnclave], ends = CallbackError err\<rparr>
      | None \<Rightarrow>
          (case createDSU env (TemplateSeedSSI (domain conf)) of
             Inl err \<Rightarrow>
               \<lparr>actions = [GetSharedEnclave, CreateDSU (TemplateSeedSSI (domain conf))],
                ends = CallbackError err\<rparr>
           | Inr bar \<Rightarrow>
               \<lparr>actions = [GetSharedEnclave, CreateDSU (TemplateSeedSSI (domain conf))],
                ends = UpdateDossier bar conf commands\<rparr>))"

text \<open>Truthiness of \<^verbatim>\<open>keySSI.getDLDomain()\<close>: \<^verbatim>\<open>undefined\<close> and the empty string are
  falsy.\<close>

fun truthy :: "string option \<Rightarrow> bool" where
  "truthy None = False"
| "truthy (Some s) = (s \<noteq> [])"

text \<open>The inner function \<^verbatim>\<open>builder(keySSI)\<close> (lines 168-200). On the load path the flag
  \<^verbatim>\<open>skipFsWrite\<close> is set on the config before anything else happens in the callback of
  \<^verbatim>\<open>loadDSU\<close>.\<close>

definition builder :: "'bar builder_env \<Rightarrow> cfg \<Rightarrow> string list \<Rightarrow> string \<Rightarrow> 'bar build" where
  "builder env conf commands content =
     (case keySSISpace_parse env content of
        Inl err \<Rightarrow> after [Parse content] (createDossier env conf commands)
      | Inr keySSI \<Rightarrow>
          if truthy (getDLDomain keySSI) \<and> getDLDomain keySSI \<noteq> domain conf
          then after [Parse content] (createDossier env conf commands)
          else
            (case getSharedEnclave env of
               Some err \<Rightarrow>
                 \<lparr>actions = [Parse content, GetSharedEnclave], ends = CallbackError err\<rparr>
             | None \<Rightarrow>
                 (case loadDSU env keySSI of
                    Inl err \<Rightarrow>
                      (case createDSU env (UseSSIAsIdentifier keySSI) of
                         Inl err \<Rightarrow>
                           \<lparr>actions = [Parse content, GetSharedEnclave, LoadDSU keySSI,
                                       CreateDSU (UseSSIAsIdentifier keySSI)],
                            ends = CallbackError err\<rparr>
                       | Inr bar \<Rightarrow>
                           \<lparr>actions = [Parse content, GetSharedEnclave, LoadDSU keySSI,
                                       CreateDSU (UseSSIAsIdentifier keySSI)],
                            ends = UpdateDossier bar (conf\<lparr>skipFsWrite := True\<rparr>) commands\<rparr>)
                  | Inr bar \<Rightarrow>
                      \<lparr>actions = [Parse content, GetSharedEnclave, LoadDSU keySSI],
                       ends = UpdateDossier bar (conf\<lparr>skipFsWrite := True\<rparr>) commands\<rparr>)))"

text \<open>\<^verbatim>\<open>buildDossier(configOrDSU, commands, callback)\<close> (lines 162-215). \<open>None\<close> for
  \<open>commands\<close> is the call with the callback in its place. For an \<^verbatim>\<open>Archive\<close> the config
  handed on is the literal \<^verbatim>\<open>{skipFsWrite: true}\<close>.\<close>

definition buildDossier ::
  "'bar builder_env \<Rightarrow> 'bar configOrDSU \<Rightarrow> string list option \<Rightarrow> 'bar build" where
  "buildDossier env configOrDSU commands_arg =
     (let commands = (case commands_arg of None \<Rightarrow> [] | Some cs \<Rightarrow> cs)
      in case initialiseBuildWallet env of
           Some err \<Rightarrow> \<lparr>actions = [InitialiseBuildWallet], ends = CallbackError err\<rparr>
         | None \<Rightarrow>
             (case configOrDSU of
                Archive bar \<Rightarrow>
                  \<lparr>actions = [InitialiseBuildWallet],
                   ends = UpdateDossier bar
                            \<lparr>seed = None, domain = None, skipFsWrite = True\<rparr> commands\<rparr>
              | Config conf \<Rightarrow>
                  (case readFile env (seed conf) of
                     Inl err \<Rightarrow>
                       after [InitialiseBuildWallet, ReadFile (seed conf)]
                         (createDossier env conf commands)
                   | Inr content \<Rightarrow>
                       if length content = 0
                       then after [InitialiseBuildWallet, ReadFile (seed conf)]
                              (createDossier env conf commands)
                       else after [InitialiseBuildWallet, ReadFile (seed conf)]
                              (builder env conf commands content))))"

section \<open>Sample collaborators\<close>

text \<open>A small world to run the definitions in: a key in domain \<open>default\<close> and one in
  the vault domain, a parser that accepts non-empty JSON strings, some read endpoints and
  some write endpoints. \<open>sample_env services cache\<close> is the world in which the Service
  Locator answers \<open>services\<close> and the configured cache mode is \<open>cache\<close>.\<close>

definition sample_key :: ssi where
  "sample_key =
     \<lparr>getDLDomain = Some ''default'', getAnchorId = ''A'', getIdentifier = ''key:A''\<rparr>"

definition vault_key :: ssi where
  "vault_key =
     \<lparr>getDLDomain = Some ''vault'', getAnchorId = ''A'', getIdentifier = ''key:A''\<rparr>"

definition link :: "string \<Rightarrow> ssi" where
  "link h = \<lparr>getDLDomain = Some ''default'', getAnchorId = h, getIdentifier = h\<rparr>"

fun sample_parse :: "json \<Rightarrow> error + ssi" where
  "sample_parse (JString h) =
     (if h = [] then Inl (ServiceError ''Invalid keySSI'') else Inr (link h))"
| "sample_parse other = Inl (ServiceError ''Invalid keySSI'')"

definition sample_fetch :: "string \<Rightarrow> (response, error) promise" where
  "sample_fetch url =
     (if url = ''slow/anchor/versions/A''
      then \<lparr>settledAt = 2,
            outcome = Fulfilled (Response (Inr (JArray [JString ''h1''])))\<rparr>
      else if url = ''fast/anchor/versions/A''
      then \<lparr>settledAt = 1,
            outcome = Fulfilled (Response (Inr (JArray [JString ''h1'', JString ''h2''])))\<rparr>
      else if url = ''garbled/anchor/versions/A''
      then \<lparr>settledAt = 1,
            outcome = Fulfilled (Response (Inl (ServiceError ''Unexpected token'')))\<rparr>
      else if url = ''badlink/anchor/versions/A''
      then \<lparr>settledAt = 1,
            outcome = Fulfilled (Response (Inr (JArray [JString ''h1'', JString []])))\<rparr>
      else \<lparr>settledAt = 3, outcome = Rejected (ServiceError ''ECONNREFUSED'')\<rparr>)"

definition sample_doPut :: "string \<Rightarrow> body \<Rightarrow> put_reply" where
  "sample_doPut url b =
     (if url = ''accepting/anchor/add/A''
      then \<lparr>repliedAt = 3, reply = Inr ''accepted''\<rparr>
      else if url = ''stale/anchor/add/A''
      then \<lparr>repliedAt = 1,
            reply = Inl \<lparr>statusCode = Some 428, message = Some ''Precondition Required''\<rparr>\<rparr>
      else if url = ''broken/anchor/add/A''
      then \<lparr>repliedAt = 2,
            reply = Inl \<lparr>statusCode = Some 500, message = Some ''Internal Server Error''\<rparr>\<rparr>
      else if url = ''mute/anchor/add/A''
      then \<lparr>repliedAt = 2, reply = Inl \<lparr>statusCode = Some 500, message = None\<rparr>\<rparr>
      else if url = ''blank/anchor/add/A''
      then \<lparr>repliedAt = 2, reply = Inl \<lparr>statusCode = Some 502, message = Some []\<rparr>\<rparr>
      else \<lparr>repliedAt = 4, reply = Inl \<lparr>statusCode = None, message = Some ''ECONNREFUSED''\<rparr>\<rparr>)"

definition sample_env :: "string list \<Rightarrow> string option \<Rightarrow> env" where
  "sample_env services cache =
     \<lparr>DOMAINS_VAULT = ''vault'',
      CACHE_VAULT_TYPE = ''cache.vaultType'',
      config_get = (\<lambda>k. if k = ''cache.vaultType'' then cache else None),
      getAnchoringServices = (\<lambda>d. Inr services),
      fetch = sample_fetch,
      doPut = sample_doPut,
      keyssi_parse = sample_parse,
      cachedAnchoring_versions = (\<lambda>a. Succeeded [link ''cached'']),
      cachedAnchoring_addVersion = (\<lambda>a h. Succeeded ''cached'')\<rparr>"

text \<open>The same world with the arrival order of the write replies turned around: what
  each endpoint answers is unchanged, when it answers is not.\<close>

definition sample_env_reversed :: "string list \<Rightarrow> string option \<Rightarrow> env" where
  "sample_env_reversed services cache =
     (sample_env services cache)
       \<lparr>doPut := (\<lambda>url b. \<lparr>repliedAt = 10 - repliedAt (sample_doPut url b),
                             reply = reply (sample_doPut url b)\<rparr>)\<rparr>"

text \<open>A builder world: the seed file holds an identifier of domain \<open>old\<close>, the config
  asks for domain \<open>new\<close>, and the enclave can both load and create.\<close>

definition stored_key :: ssi where
  "stored_key =
     \<lparr>getDLDomain = Some ''old'', getAnchorId = ''A'', getIdentifier = ''ssi:old:A''\<rparr>"

definition sample_conf :: cfg where
  "sample_conf = \<lparr>seed = Some ''./seed'', domain = Some ''new'', skipFsWrite = False\<rparr>"

definition sample_builder_env :: "nat builder_env" where
  "sample_builder_env =
     \<lparr>initialiseBuildWallet = None,
      readFile = (\<lambda>p. Inr ''ssi:old:A''),
      keySSISpace_parse = (\<lambda>s. Inr stored_key),
      getSharedEnclave = None,
      createDSU = (\<lambda>s. Inr 1),
      loadDSU = (\<lambda>k. Inr 0)\<rparr>"

section \<open>Auxiliary facts\<close>

lemma not_fulfilled_iff_rejected: "(\<not> is_fulfilled x) = is_rejected x"
  by (cases x) simp_all

lemma find_fulfilled_None: "(find is_fulfilled xs = None) = (\<forall>x\<in>set xs. is_rejected x)"
  by (induction xs) (simp_all add: not_fulfilled_iff_rejected [symmetric])

lemma find_fulfilled_is_fulfilled: "find is_fulfilled xs \<noteq> Some (Rejected reason)"
  by (induction xs) auto

lemma find_rejected_is_rejected: "find is_rejected xs \<noteq> Some (Fulfilled v)"
  by (induction xs) auto

lemma find_first_index:
  "i < length xs \<Longrightarrow> P (xs ! i) \<Longrightarrow> \<forall>j<i. \<not> P (xs ! j) \<Longrightarrow> find P xs = Some (xs ! i)"
proof (induction xs arbitrary: i)
  case Nil
  then show ?case by simp
next
  case (Cons x xs)
  show ?case
  proof (cases i)
    case 0
    with Cons.prems show ?thesis by simp
  next
    case (Suc k)
    from Cons.prems Suc have "\<not> P x" by auto
    moreover from Cons.prems Suc have "find P xs = Some (xs ! k)"
      by (intro Cons.IH) auto
    ultimately show ?thesis using Suc by simp
  qed
qed

lemma find_fulfilled_map_index:
  assumes "i < length services"
    and "f (services ! i) = Fulfilled v"
    and "\<forall>j<i. is_rejected (f (services ! j))"
  shows "find is_fulfilled (map f services) = Some (Fulfilled v)"
proof -
  have "find is_fulfilled (map f services) = Some (map f services ! i)"
  proof (rule find_first_index)
    show "i < length (map f services)" using assms(1) by simp
    show "is_fulfilled (map f services ! i)" using assms(1,2) by simp
    show "\<forall>j<i. \<not> is_fulfilled (map f services ! j)"
      using assms(1,3) by (simp add: not_fulfilled_iff_rejected)
  qed
  with assms(1,2) show ?thesis by simp
qed

lemma map_parse_fails:
  "\<exists>x\<in>set xs. \<exists>e. parse x = Inl e \<Longrightarrow> \<exists>e. map_parse parse xs = Inl e"
proof (induction xs)
  case Nil
  then show ?case by simp
next
  case (Cons a xs)
  show ?case
  proof (cases "parse a")
    case (Inl e)
    then show ?thesis by simp
  next
    case (Inr hashLink)
    with Cons.prems have "\<exists>x\<in>set xs. \<exists>e. parse x = Inl e" by auto
    then obtain e where "map_parse parse xs = Inl e" using Cons.IH by blast
    with Inr show ?thesis by simp
  qed
qed

lemma versions_bypass:
  "local_bypass env keySSI \<Longrightarrow>
   versions env keySSI authToken =
     \<lparr>located = [], requests = [], cached = [CachedVersions (getAnchorId keySSI)],
      delivered = cachedAnchoring_versions env (getAnchorId keySSI)\<rparr>"
  by (auto simp: versions_def Let_def)

lemma versions_locator_error:
  "\<not> local_bypass env keySSI \<Longrightarrow> getAnchoringServices env (getDLDomain keySSI) = Inl err \<Longrightarrow>
   versions env keySSI authToken =
     \<lparr>located = [getDLDomain keySSI], requests = [], cached = [], delivered = Failed err\<rparr>"
  by (auto simp: versions_def Let_def)

lemma versions_no_service:
  "\<not> local_bypass env keySSI \<Longrightarrow> getAnchoringServices env (getDLDomain keySSI) = Inr [] \<Longrightarrow>
   versions env keySSI authToken =
     \<lparr>located = [getDLDomain keySSI], requests = [], cached = [],
      delivered = Failed (Message ''No anchoring service provided'')\<rparr>"
  by (auto simp: versions_def Let_def)

lemma versions_network:
  "\<not> local_bypass env keySSI \<Longrightarrow>
   getAnchoringServices env (getDLDomain keySSI) = Inr services \<Longrightarrow> services \<noteq> [] \<Longrightarrow>
   versions env keySSI authToken =
     \<lparr>located = [getDLDomain keySSI],
      requests = map (\<lambda>service. GET (service @ ''/anchor/versions/'' @ getAnchorId keySSI)) services,
      cached = [],
      delivered =
        versions_then env
          (map (\<lambda>service. outcome (fetch env (service @ ''/anchor/versions/'' @ getAnchorId keySSI)))
             services)\<rparr>"
  by (auto simp: versions_def Let_def allSettled_def versions_queries_def versions_url_def comp_def)

lemma addVersion_bypass:
  "local_bypass env keySSI \<Longrightarrow>
   addVersion env keySSI newHashLinkSSI lastHashLinkSSI zkp dproof =
     \<lparr>located = [], requests = [],
      cached = [CachedAddVersion (getAnchorId keySSI) (getIdentifier newHashLinkSSI)],
      delivered =
        cachedAnchoring_addVersion env (getAnchorId keySSI) (getIdentifier newHashLinkSSI)\<rparr>"
  by (auto simp: addVersion_def Let_def)

lemma addVersion_locator_error:
  "\<not> local_bypass env keySSI \<Longrightarrow> getAnchoringServices env (getDLDomain keySSI) = Inl err \<Longrightarrow>
   addVersion env keySSI newHashLinkSSI lastHashLinkSSI zkp dproof =
     \<lparr>located = [getDLDomain keySSI], requests = [], cached = [], delivered = Failed err\<rparr>"
  by (auto simp: addVersion_def Let_def)

lemma addVersion_no_service:
  "\<not> local_bypass env keySSI \<Longrightarrow> getAnchoringServices env (getDLDomain keySSI) = Inr [] \<Longrightarrow>
   addVersion env keySSI newHashLinkSSI lastHashLinkSSI zkp dproof =
     \<lparr>located = [getDLDomain keySSI], requests = [], cached = [],
      delivered = Failed (Message ''No anchoring service provided'')\<rparr>"
  by (auto simp: addVersion_def Let_def)

lemma addVersion_network:
  "\<not> local_bypass env keySSI \<Longrightarrow>
   getAnchoringServices env (getDLDomain keySSI) = Inr services \<Longrightarrow> services \<noteq> [] \<Longrightarrow>
   addVersion env keySSI newHashLinkSSI lastHashLinkSSI zkp dproof =
     \<lparr>located = [getDLDomain keySSI],
      requests =
        map (\<lambda>service. PUT (service @ ''/anchor/add/'' @ getAnchorId keySSI)
                          (addVersion_body newHashLinkSSI lastHashLinkSSI zkp dproof))
          services,
      cached = [],
      delivered =
        addVersion_then
          (map (\<lambda>service. outcome (put_promise
                  (doPut env (service @ ''/anchor/add/'' @ getAnchorId keySSI)
                     (addVersion_body newHashLinkSSI lastHashLinkSSI zkp dproof))))
             services)\<rparr>"
  by (auto simp: addVersion_def Let_def allSettled_def addVersion_queries_def add_url_def comp_def)

lemma versions_cached_iff: "(cached (versions env keySSI authToken) \<noteq> []) = local_bypass env keySSI"
  by (auto simp: versions_def Let_def split: sum.splits)

lemma addVersion_cached_iff:
  "(cached (addVersion env keySSI newHashLinkSSI lastHashLinkSSI zkp dproof) \<noteq> [])
     = local_bypass env keySSI"
  by (auto simp: addVersion_def Let_def split: sum.splits)

lemma put_outcome_rejected:
  "reply r = Inl err \<Longrightarrow> outcome (put_promise r) = Rejected (put_rejection err)"
  by (simp add: put_promise_def)

lemma put_outcome_fulfilled:
  "reply r = Inr data \<Longrightarrow> outcome (put_promise r) = Fulfilled data"
  by (simp add: put_promise_def)

lemma put_is_rejected: "is_rejected (outcome (put_promise r)) = (\<exists>err. reply r = Inl err)"
  by (cases "reply r") (simp_all add: put_promise_def)

lemma put_is_fulfilled: "is_fulfilled (outcome (put_promise r)) = (\<exists>data. reply r = Inr data)"
  by (cases "reply r") (simp_all add: put_promise_def)

lemma addVersion_then_all_rejected:
  assumes "responses \<noteq> []" and "\<forall>x\<in>set responses. is_rejected x"
  shows "\<exists>reason. hd responses = Rejected reason \<and> addVersion_then responses = Failed (PutRejected reason)"
proof -
  from assms(1) obtain x rest where r: "responses = x # rest" by (cases responses) auto
  with assms(2) have "is_rejected x" by simp
  then obtain reason where x: "x = Rejected reason" by (cases x) auto
  from assms(2) have "find is_fulfilled responses = None" by (simp add: find_fulfilled_None)
  with r x show ?thesis by (simp add: addVersion_then_def)
qed

lemma addVersion_then_some_fulfilled:
  assumes "\<exists>x\<in>set responses. is_fulfilled x"
  shows "\<exists>v. Fulfilled v \<in> set responses \<and> addVersion_then responses = Succeeded v"
proof -
  from assms have "find is_fulfilled responses \<noteq> None" by (auto simp: find_None_iff)
  then obtain y where y: "find is_fulfilled responses = Some y" by auto
  then have "y \<in> set responses" and "is_fulfilled y"
    by (auto simp: find_Some_iff)
  from \<open>is_fulfilled y\<close> obtain v where "y = Fulfilled v" by (cases y) auto
  with y \<open>y \<in> set responses\<close> show ?thesis by (auto simp: addVersion_then_def)
qed

lemma actions_after: "actions (after earlier r) = earlier @ actions r"
  by (simp add: after_def)

lemma ends_after: "ends (after earlier r) = ends r"
  by (simp add: after_def)

lemma createDossier_actions:
  "actions (createDossier env conf commands) =
     (if getSharedEnclave env = None
      then [GetSharedEnclave, CreateDSU (TemplateSeedSSI (domain conf))]
      else [GetSharedEnclave])"
  by (auto simp: createDossier_def split: option.splits sum.splits)

section \<open>Claims about the read path\<close>

text \<open>
  Claim C1, as the specification words it: on the network path with a non-empty endpoint
  list, the response that is selected and decoded is the first fulfilled one in
  settlement (arrival) order, not in endpoint-list order.

  The code does otherwise. \<^verbatim>\<open>Promise.allSettled\<close> returns its results in the order of
  \<^verbatim>\<open>queries\<close>, which is the order of the Service Locator's list, and
  \<^verbatim>\<open>responses.find\<close> walks that array from the front. With the endpoints
  \<open>[slow, fast]\<close>, both fulfilled, \<open>fast\<close> settling at time 1 with the chain
  \<open>[h1, h2]\<close> and \<open>slow\<close> at time 2 with the chain \<open>[h1]\<close>, the first fulfilled
  response in settlement order is the one of \<open>fast\<close>, which decodes to \<open>[h1, h2]\<close>,
  and the callback receives the chain \<open>[h1]\<close> of \<open>slow\<close>.
\<close>

theorem C1_settlement_order_counterexample:
  "first_fulfilled_in_settlement_order
     (versions_queries (sample_env [''slow'', ''fast''] None) sample_key [''slow'', ''fast''])
     = Some (Fulfilled (Response (Inr (JArray [JString ''h1'', JString ''h2'']))))
   \<and> find is_fulfilled
       (allSettled
          (versions_queries (sample_env [''slow'', ''fast''] None) sample_key [''slow'', ''fast'']))
     = Some (Fulfilled (Response (Inr (JArray [JString ''h1'']))))
   \<and> delivered (versions (sample_env [''slow'', ''fast''] None) sample_key Undefined)
     = Succeeded [link ''h1'']
   \<and> decode_chain (sample_env [''slow'', ''fast''] None)
        (Response (Inr (JArray [JString ''h1'', JString ''h2''])))
     = Succeeded [link ''h1'', link ''h2'']"
  by (simp add: first_fulfilled_in_settlement_order_def settlement_order_def versions_queries_def
      versions_url_def sample_env_def sample_key_def sample_fetch_def allSettled_def
      versions_def versions_then_def decode_chain_def Let_def)

text \<open>
  Claim C1, amended: the response that is selected and decoded is the first fulfilled one
  in endpoint-list order. If the endpoint at index \<open>i\<close> of the list fulfils and every
  endpoint before it in the list rejects, the callback is invoked by decoding the response
  of endpoint \<open>i\<close>, whenever the requests settled.
\<close>

theorem versions_selects_first_fulfilled_in_list_order:
  assumes "\<not> local_bypass env keySSI"
    and "getAnchoringServices env (getDLDomain keySSI) = Inr services"
    and "i < length services"
    and "outcome (fetch env ((services ! i) @ ''/anchor/versions/'' @ getAnchorId keySSI))
           = Fulfilled resp"
    and "\<forall>j<i. is_rejected
           (outcome (fetch env ((services ! j) @ ''/anchor/versions/'' @ getAnchorId keySSI)))"
  shows "delivered (versions env keySSI authToken) = decode_chain env resp"
proof -
  from assms(3) have ne: "services \<noteq> []" by auto
  have "find is_fulfilled
          (map (\<lambda>service. outcome (fetch env (service @ ''/anchor/versions/'' @ getAnchorId keySSI)))
             services) = Some (Fulfilled resp)"
    using assms(3,4,5) by (rule find_fulfilled_map_index)
  then show ?thesis
    by (simp add: versions_network [OF assms(1,2) ne] versions_then_def)
qed

text \<open>Endpoints \<open>[down, slow, fast]\<close>: \<open>down\<close> rejects, and \<open>slow\<close> is selected
  although \<open>fast\<close> settled before it.\<close>

theorem versions_selects_first_fulfilled_in_list_order_witness:
  "\<not> local_bypass (sample_env [''down'', ''slow'', ''fast''] None) sample_key
   \<and> getAnchoringServices (sample_env [''down'', ''slow'', ''fast''] None) (getDLDomain sample_key)
       = Inr [''down'', ''slow'', ''fast'']
   \<and> (1::nat) < length [''down'', ''slow'', ''fast'']
   \<and> outcome (fetch (sample_env [''down'', ''slow'', ''fast''] None)
        (([''down'', ''slow'', ''fast''] ! 1) @ ''/anchor/versions/'' @ getAnchorId sample_key))
       = Fulfilled (Response (Inr (JArray [JString ''h1''])))
   \<and> is_rejected
        (outcome (fetch (sample_env [''down'', ''slow'', ''fast''] None)
           (([''down'', ''slow'', ''fast''] ! 0) @ ''/anchor/versions/'' @ getAnchorId sample_key)))
   \<and> settledAt (fetch (sample_env [''down'', ''slow'', ''fast''] None) ''fast/anchor/versions/A'')
       < settledAt (fetch (sample_env [''down'', ''slow'', ''fast''] None) ''slow/anchor/versions/A'')
   \<and> delivered (versions (sample_env [''down'', ''slow'', ''fast''] None) sample_key Undefined)
       = Succeeded [link ''h1'']"
  using versions_selects_first_fulfilled_in_list_order
    [where env = "sample_env [''down'', ''slow'', ''fast''] None" and keySSI = sample_key
       and services = "[''down'', ''slow'', ''fast'']" and i = 1
       and resp = "Response (Inr (JArray [JString ''h1'']))" and authToken = Undefined]
  by (simp add: sample_env_def sample_key_def sample_fetch_def decode_chain_def)

text \<open>
  Claim C5: a read on the network path in which no endpoint's request fulfils fails: the
  callback is invoked with an error, and never with a Version Chain. (With no fulfilled
  entry \<^verbatim>\<open>response\<close> is \<^verbatim>\<open>undefined\<close>, \<^verbatim>\<open>response.value\<close> throws, and the \<^verbatim>\<open>.catch\<close>
  hands the exception to the callback.)
\<close>

theorem read_fails_when_nothing_fulfils:
  assumes "\<not> local_bypass env keySSI"
    and "getAnchoringServices env (getDLDomain keySSI) = Inr services"
    and "\<forall>service\<in>set services.
           is_rejected (outcome (fetch env (service @ ''/anchor/versions/'' @ getAnchorId keySSI)))"
  shows "(\<exists>err. delivered (versions env keySSI authToken) = Failed err)
       \<and> (\<forall>chain. delivered (versions env keySSI authToken) \<noteq> Succeeded chain)"
proof (cases "services = []")
  case True
  with assms(2) have "getAnchoringServices env (getDLDomain keySSI) = Inr []" by simp
  then show ?thesis by (simp add: versions_no_service [OF assms(1)])
next
  case False
  from assms(3)
  have "find is_fulfilled
          (map (\<lambda>service. outcome (fetch env (service @ ''/anchor/versions/'' @ getAnchorId keySSI)))
             services) = None"
    by (simp add: find_fulfilled_None)
  then show ?thesis
    by (simp add: versions_network [OF assms(1,2) False] versions_then_def)
qed

text \<open>Endpoints \<open>[down, away]\<close>, both unreachable.\<close>

theorem read_fails_when_nothing_fulfils_witness:
  "\<not> local_bypass (sample_env [''down'', ''away''] None) sample_key
   \<and> getAnchoringServices (sample_env [''down'', ''away''] None) (getDLDomain sample_key)
       = Inr [''down'', ''away'']
   \<and> is_rejected (outcome (fetch (sample_env [''down'', ''away''] None)
        (''down'' @ ''/anchor/versions/'' @ getAnchorId sample_key)))
   \<and> is_rejected (outcome (fetch (sample_env [''down'', ''away''] None)
        (''away'' @ ''/anchor/versions/'' @ getAnchorId sample_key)))
   \<and> (\<exists>err. delivered (versions (sample_env [''down'', ''away''] None) sample_key Undefined)
          = Failed err)"
  using read_fails_when_nothing_fulfils
    [where env = "sample_env [''down'', ''away''] None" and keySSI = sample_key
       and services = "[''down'', ''away'']" and authToken = Undefined]
  by (simp add: sample_env_def sample_key_def sample_fetch_def)

text \<open>
  Claim C10: on the network path, when some response fulfils but the body of the selected
  response (the first fulfilled one of the list) fails JSON decoding, or one of the
  decoded elements fails identifier parsing, the callback is never invoked: the call ends
  with neither a Version Chain nor an error.
\<close>

theorem callback_never_invoked_when_decoding_fails:
  assumes "\<not> local_bypass env keySSI"
    and "getAnchoringServices env (getDLDomain keySSI) = Inr services"
    and "i < length services"
    and "outcome (fetch env ((services ! i) @ ''/anchor/versions/'' @ getAnchorId keySSI))
           = Fulfilled resp"
    and "\<forall>j<i. is_rejected
           (outcome (fetch env ((services ! j) @ ''/anchor/versions/'' @ getAnchorId keySSI)))"
    and "(\<exists>e. json_of resp = Inl e)
         \<or> (\<exists>elements. json_of resp = Inr (JArray elements)
               \<and> (\<exists>hlString\<in>set elements. \<exists>e. keyssi_parse env hlString = Inl e))"
  shows "delivered (versions env keySSI authToken) = NotInvoked"
proof -
  from assms(3) have ne: "services \<noteq> []" by auto
  have sel: "find is_fulfilled
          (map (\<lambda>service. outcome (fetch env (service @ ''/anchor/versions/'' @ getAnchorId keySSI)))
             services) = Some (Fulfilled resp)"
    using assms(3,4,5) by (rule find_fulfilled_map_index)
  have "decode_chain env resp = NotInvoked"
    using assms(6)
  proof
    assume "\<exists>e. json_of resp = Inl e"
    then show ?thesis by (auto simp: decode_chain_def)
  next
    assume "\<exists>elements. json_of resp = Inr (JArray elements)
               \<and> (\<exists>hlString\<in>set elements. \<exists>e. keyssi_parse env hlString = Inl e)"
    then obtain elements where j: "json_of resp = Inr (JArray elements)"
      and bad: "\<exists>hlString\<in>set elements. \<exists>e. keyssi_parse env hlString = Inl e"
      by blast
    from bad obtain e where "map_parse (keyssi_parse env) elements = Inl e"
      using map_parse_fails by blast
    with j show ?thesis by (simp add: decode_chain_def)
  qed
  with sel show ?thesis
    by (simp add: versions_network [OF assms(1,2) ne] versions_then_def)
qed

text \<open>Endpoints \<open>[down, garbled, fast]\<close>: the body of \<open>garbled\<close> does not decode, and
  the callback is not invoked although \<open>fast\<close> holds a good chain. Endpoints
  \<open>[badlink, fast]\<close>: the second element of the array of \<open>badlink\<close> does not parse.\<close>

theorem callback_never_invoked_when_decoding_fails_witness:
  "\<not> local_bypass (sample_env [''down'', ''garbled'', ''fast''] None) sample_key
   \<and> getAnchoringServices (sample_env [''down'', ''garbled'', ''fast''] None)
        (getDLDomain sample_key) = Inr [''down'', ''garbled'', ''fast'']
   \<and> (1::nat) < length [''down'', ''garbled'', ''fast'']
   \<and> outcome (fetch (sample_env [''down'', ''garbled'', ''fast''] None)
        (([''down'', ''garbled'', ''fast''] ! 1) @ ''/anchor/versions/'' @ getAnchorId sample_key))
       = Fulfilled (Response (Inl (ServiceError ''Unexpected token'')))
   \<and> is_rejected
        (outcome (fetch (sample_env [''down'', ''garbled'', ''fast''] None)
           (([''down'', ''garbled'', ''fast''] ! 0) @ ''/anchor/versions/'' @ getAnchorId sample_key)))
   \<and> json_of (Response (Inl (ServiceError ''Unexpected token'')))
       = Inl (ServiceError ''Unexpected token'')
   \<and> delivered (versions (sample_env [''down'', ''garbled'', ''fast''] None) sample_key Undefined)
       = NotInvoked
   \<and> getAnchoringServices (sample_env [''badlink'', ''fast''] None) (getDLDomain sample_key)
       = Inr [''badlink'', ''fast'']
   \<and> outcome (fetch (sample_env [''badlink'', ''fast''] None)
        (([''badlink'', ''fast''] ! 0) @ ''/anchor/versions/'' @ getAnchorId sample_key))
       = Fulfilled (Response (Inr (JArray [JString ''h1'', JString []])))
   \<and> keyssi_parse (sample_env [''badlink'', ''fast''] None) (JString [])
       = Inl (ServiceError ''Invalid keySSI'')
   \<and> delivered (versions (sample_env [''badlink'', ''fast''] None) sample_key Undefined)
       = NotInvoked"
  using callback_never_invoked_when_decoding_fails
    [where env = "sample_env [''down'', ''garbled'', ''fast''] None" and keySSI = sample_key
       and services = "[''down'', ''garbled'', ''fast'']" and i = 1
       and resp = "Response (Inl (ServiceError ''Unexpected token''))" and authToken = Undefined]
    callback_never_invoked_when_decoding_fails
    [where env = "sample_env [''badlink'', ''fast''] None" and keySSI = sample_key
       and services = "[''badlink'', ''fast'']" and i = 0
       and resp = "Response (Inr (JArray [JString ''h1'', JString []]))" and authToken = Undefined]
  by (simp add: sample_env_def sample_key_def sample_fetch_def)

section \<open>Claims about the write path\<close>

text \<open>
  Claim C2, as the specification words it: when every endpoint rejects, the reason
  delivered has the conflict text as its message if the status code of that rejection is
  428, and otherwise that rejection's original error message.

  The code puts \<^verbatim>\<open>err.message || 'Error'\<close> in the second case. The endpoint \<open>mute\<close>
  rejects with status 500 and no message, the endpoint \<open>blank\<close> with status 502 and the
  empty message; in both runs the reason delivered has the message \<open>Error\<close>, which is
  not the original one.
\<close>

theorem C2_original_message_counterexample:
  "reply (doPut (sample_env [''mute''] None) (''mute'' @ ''/anchor/add/'' @ getAnchorId sample_key)
            (addVersion_body (link ''h2'') Undefined Undefined None))
     = Inl \<lparr>statusCode = Some 500, message = None\<rparr>
   \<and> delivered (addVersion (sample_env [''mute''] None) sample_key (link ''h2'')
                  Undefined Undefined None)
     = Failed (PutRejected \<lparr>reason_statusCode = Some 500, reason_message = ''Error''\<rparr>)
   \<and> Some (reason_message \<lparr>reason_statusCode = Some 500, reason_message = ''Error''\<rparr>)
     \<noteq> message_as_specified \<lparr>statusCode = Some 500, message = None\<rparr>
   \<and> reply (doPut (sample_env [''blank''] None) (''blank'' @ ''/anchor/add/'' @ getAnchorId sample_key)
            (addVersion_body (link ''h2'') Undefined Undefined None))
     = Inl \<lparr>statusCode = Some 502, message = Some []\<rparr>
   \<and> delivered (addVersion (sample_env [''blank''] None) sample_key (link ''h2'')
                  Undefined Undefined None)
     = Failed (PutRejected \<lparr>reason_statusCode = Some 502, reason_message = ''Error''\<rparr>)
   \<and> Some (reason_message \<lparr>reason_statusCode = Some 502, reason_message = ''Error''\<rparr>)
     \<noteq> message_as_specified \<lparr>statusCode = Some 502, message = Some []\<rparr>"
  by (simp add: addVersion_def Let_def addVersion_then_def allSettled_def addVersion_queries_def
      add_url_def put_promise_def put_rejection_def message_as_specified_def
      sample_env_def sample_key_def sample_doPut_def)

text \<open>
  Claim C2, amended: when every endpoint of a write on the network path rejects, the
  error delivered is the reason of one of these rejections; its message is
  \<open>Unable to add alias: versions out of sync\<close> if the status code of that rejection is
  428, otherwise the original message of that rejection when it has a non-empty one, and
  \<open>Error\<close> when the message is missing or empty. The reason also carries the original
  status code, so a conflict (428) can be told from any other failure.
\<close>

theorem rejection_message_conflict_or_original_or_default:
  assumes "\<not> local_bypass env keySSI"
    and "getAnchoringServices env (getDLDomain keySSI) = Inr services"
    and "services \<noteq> []"
    and "\<forall>service\<in>set services. \<exists>err.
           reply (doPut env (service @ ''/anchor/add/'' @ getAnchorId keySSI)
                    (addVersion_body newHashLinkSSI lastHashLinkSSI zkp dproof)) = Inl err"
  shows "\<exists>service\<in>set services. \<exists>err.
           reply (doPut env (service @ ''/anchor/add/'' @ getAnchorId keySSI)
                    (addVersion_body newHashLinkSSI lastHashLinkSSI zkp dproof)) = Inl err
         \<and> delivered (addVersion env keySSI newHashLinkSSI lastHashLinkSSI zkp dproof)
           = Failed (PutRejected
               \<lparr>reason_statusCode = statusCode err,
                reason_message =
                  (if statusCode err = Some 428 then ''Unable to add alias: versions out of sync''
                   else if message err = None \<or> message err = Some [] then ''Error''
                   else the (message err))\<rparr>)"
proof -
  let ?put = "\<lambda>service. outcome (put_promise
                  (doPut env (service @ ''/anchor/add/'' @ getAnchorId keySSI)
                     (addVersion_body newHashLinkSSI lastHashLinkSSI zkp dproof)))"
  from assms(3) obtain first others where l: "services = first # others"
    by (cases services) auto
  from assms(4) l obtain err where
    err: "reply (doPut env (first @ ''/anchor/add/'' @ getAnchorId keySSI)
                    (addVersion_body newHashLinkSSI lastHashLinkSSI zkp dproof)) = Inl err"
    by auto
  from assms(4) have "\<forall>x\<in>set (map ?put services). is_rejected x"
    by (simp add: put_is_rejected)
  moreover from assms(3) have "map ?put services \<noteq> []" by simp
  ultimately obtain reason where
    "hd (map ?put services) = Rejected reason"
    and d: "addVersion_then (map ?put services) = Failed (PutRejected reason)"
    using addVersion_then_all_rejected by blast
  with l err have "reason = put_rejection err" by (simp add: put_outcome_rejected)
  with d have "delivered (addVersion env keySSI newHashLinkSSI lastHashLinkSSI zkp dproof)
                 = Failed (PutRejected (put_rejection err))"
    by (simp add: addVersion_network [OF assms(1,2,3)])
  moreover have "put_rejection err =
      \<lparr>reason_statusCode = statusCode err,
       reason_message =
         (if statusCode err = Some 428 then ''Unable to add alias: versions out of sync''
          else if message err = None \<or> message err = Some [] then ''Error''
          else the (message err))\<rparr>"
    by (cases "message err") (simp_all add: put_rejection_def)
  ultimately show ?thesis using l err by auto
qed

text \<open>A write against \<open>[stale]\<close> (status 428) and one against \<open>[broken]\<close> (status
  500 with a message).\<close>

theorem rejection_message_conflict_or_original_or_default_witness:
  "\<not> local_bypass (sample_env [''stale''] None) sample_key
   \<and> getAnchoringServices (sample_env [''stale''] None) (getDLDomain sample_key) = Inr [''stale'']
   \<and> [''stale''] \<noteq> []
   \<and> reply (doPut (sample_env [''stale''] None)
              (''stale'' @ ''/anchor/add/'' @ getAnchorId sample_key)
              (addVersion_body (link ''h2'') (Given (link ''h0'')) Undefined None))
       = Inl \<lparr>statusCode = Some 428, message = Some ''Precondition Required''\<rparr>
   \<and> delivered (addVersion (sample_env [''stale''] None) sample_key (link ''h2'')
                  (Given (link ''h0'')) Undefined None)
       = Failed (PutRejected \<lparr>reason_statusCode = Some 428,
                   reason_message = ''Unable to add alias: versions out of sync''\<rparr>)
   \<and> \<not> local_bypass (sample_env [''broken''] None) sample_key
   \<and> getAnchoringServices (sample_env [''broken''] None) (getDLDomain sample_key) = Inr [''broken'']
   \<and> [''broken''] \<noteq> []
   \<and> reply (doPut (sample_env [''broken''] None)
              (''broken'' @ ''/anchor/add/'' @ getAnchorId sample_key)
              (addVersion_body (link ''h2'') (Given (link ''h0'')) Undefined None))
       = Inl \<lparr>statusCode = Some 500, message = Some ''Internal Server Error''\<rparr>
   \<and> delivered (addVersion (sample_env [''broken''] None) sample_key (link ''h2'')
                  (Given (link ''h0'')) Undefined None)
       = Failed (PutRejected \<lparr>reason_statusCode = Some 500,
                   reason_message = ''Internal Server Error''\<rparr>)"
  using rejection_message_conflict_or_original_or_default
    [where env = "sample_env [''stale''] None" and keySSI = sample_key
       and services = "[''stale'']" and newHashLinkSSI = "link ''h2''"
       and lastHashLinkSSI = "Given (link ''h0'')" and zkp = Undefined and dproof = None]
    rejection_message_conflict_or_original_or_default
    [where env = "sample_env [''broken''] None" and keySSI = sample_key
       and services = "[''broken'']" and newHashLinkSSI = "link ''h2''"
       and lastHashLinkSSI = "Given (link ''h0'')" and zkp = Undefined and dproof = None]
  by (simp add: sample_env_def sample_key_def sample_doPut_def)

text \<open>
  Claim C3: for a write on the network path, if the request of at least one endpoint
  fulfils, the call succeeds and the callback receives the response body of an endpoint
  that fulfilled, whatever the others did; the call fails if and only if every endpoint
  rejected, and then the callback receives the reason of one of the rejections.
\<close>

theorem write_succeeds_iff_some_endpoint_accepts:
  assumes "\<not> local_bypass env keySSI"
    and "getAnchoringServices env (getDLDomain keySSI) = Inr services"
    and "services \<noteq> []"
  shows "((\<exists>service\<in>set services. \<exists>data.
             reply (doPut env (service @ ''/anchor/add/'' @ getAnchorId keySSI)
                      (addVersion_body newHashLinkSSI lastHashLinkSSI zkp dproof)) = Inr data)
          \<longrightarrow> (\<exists>service\<in>set services. \<exists>data.
                 reply (doPut env (service @ ''/anchor/add/'' @ getAnchorId keySSI)
                          (addVersion_body newHashLinkSSI lastHashLinkSSI zkp dproof)) = Inr data
                 \<and> delivered (addVersion env keySSI newHashLinkSSI lastHashLinkSSI zkp dproof)
                     = Succeeded data))
       \<and> ((\<exists>e. delivered (addVersion env keySSI newHashLinkSSI lastHashLinkSSI zkp dproof)
                  = Failed e)
          = (\<forall>service\<in>set services. \<exists>err.
               reply (doPut env (service @ ''/anchor/add/'' @ getAnchorId keySSI)
                        (addVersion_body newHashLinkSSI lastHashLinkSSI zkp dproof)) = Inl err))
       \<and> ((\<forall>service\<in>set services. \<exists>err.
               reply (doPut env (service @ ''/anchor/add/'' @ getAnchorId keySSI)
                        (addVersion_body newHashLinkSSI lastHashLinkSSI zkp dproof)) = Inl err)
          \<longrightarrow> (\<exists>service\<in>set services. \<exists>err.
                 reply (doPut env (service @ ''/anchor/add/'' @ getAnchorId keySSI)
                          (addVersion_body newHashLinkSSI lastHashLinkSSI zkp dproof)) = Inl err
                 \<and> delivered (addVersion env keySSI newHashLinkSSI lastHashLinkSSI zkp dproof)
                     = Failed (PutRejected (put_rejection err))))"
proof -
  let ?r = "\<lambda>service. doPut env (service @ ''/anchor/add/'' @ getAnchorId keySSI)
                     (addVersion_body newHashLinkSSI lastHashLinkSSI zkp dproof)"
  let ?responses = "map (\<lambda>service. outcome (put_promise (?r service))) services"
  let ?d = "delivered (addVersion env keySSI newHashLinkSSI lastHashLinkSSI zkp dproof)"
  have d: "?d = addVersion_then ?responses"
    by (simp add: addVersion_network [OF assms(1,2,3)])
  have accept: "\<exists>service\<in>set services. \<exists>data. reply (?r service) = Inr data \<and> ?d = Succeeded data"
    if "\<exists>service\<in>set services. \<exists>data. reply (?r service) = Inr data"
  proof -
    from that have "\<exists>x\<in>set ?responses. is_fulfilled x"
      by (auto simp: put_is_fulfilled)
    then obtain v where v: "Fulfilled v \<in> set ?responses" and s: "addVersion_then ?responses = Succeeded v"
      using addVersion_then_some_fulfilled by blast
    from v obtain service where "service \<in> set services"
      and "outcome (put_promise (?r service)) = Fulfilled v" by auto
    moreover then have "reply (?r service) = Inr v"
      by (cases "reply (?r service)") (simp_all add: put_promise_def)
    ultimately show ?thesis using s d by auto
  qed
  have reject: "\<exists>service\<in>set services. \<exists>err. reply (?r service) = Inl err
                  \<and> ?d = Failed (PutRejected (put_rejection err))"
    if all: "\<forall>service\<in>set services. \<exists>err. reply (?r service) = Inl err"
  proof -
    from assms(3) obtain first others where l: "services = first # others"
      by (cases services) auto
    from all l obtain err where err: "reply (?r first) = Inl err" by auto
    from all have "\<forall>x\<in>set ?responses. is_rejected x" by (simp add: put_is_rejected)
    moreover from assms(3) have "?responses \<noteq> []" by simp
    ultimately obtain reason where "hd ?responses = Rejected reason"
      and f: "addVersion_then ?responses = Failed (PutRejected reason)"
      using addVersion_then_all_rejected by blast
    with l err have "reason = put_rejection err" by (simp add: put_outcome_rejected)
    with f d l err show ?thesis by auto
  qed
  have fails_iff: "(\<exists>e. ?d = Failed e) = (\<forall>service\<in>set services. \<exists>err. reply (?r service) = Inl err)"
  proof
    assume failed: "\<exists>e. ?d = Failed e"
    show "\<forall>service\<in>set services. \<exists>err. reply (?r service) = Inl err"
    proof
      fix service assume m: "service \<in> set services"
      show "\<exists>err. reply (?r service) = Inl err"
      proof (cases "reply (?r service)")
        case (Inl err)
        then show ?thesis by simp
      next
        case (Inr data)
        with m have "\<exists>service\<in>set services. \<exists>data. reply (?r service) = Inr data" by blast
        from accept [OF this] failed show ?thesis by auto
      qed
    qed
  next
    assume "\<forall>service\<in>set services. \<exists>err. reply (?r service) = Inl err"
    from reject [OF this] show "\<exists>e. ?d = Failed e" by blast
  qed
  from accept reject fails_iff show ?thesis by blast
qed

text \<open>Three endpoints, two reject with a conflict and the last one accepts: the write
  succeeds. Two endpoints that both reject: the write fails.\<close>

theorem write_succeeds_iff_some_endpoint_accepts_witness:
  "\<not> local_bypass (sample_env [''stale'', ''stale'', ''accepting''] None) sample_key
   \<and> getAnchoringServices (sample_env [''stale'', ''stale'', ''accepting''] None)
        (getDLDomain sample_key) = Inr [''stale'', ''stale'', ''accepting'']
   \<and> [''stale'', ''stale'', ''accepting''] \<noteq> []
   \<and> reply (doPut (sample_env [''stale'', ''stale'', ''accepting''] None)
              (''accepting'' @ ''/anchor/add/'' @ getAnchorId sample_key)
              (addVersion_body (link ''h2'') (Given (link ''h1'')) Undefined None))
       = Inr ''accepted''
   \<and> reply (doPut (sample_env [''stale'', ''stale'', ''accepting''] None)
              (''stale'' @ ''/anchor/add/'' @ getAnchorId sample_key)
              (addVersion_body (link ''h2'') (Given (link ''h1'')) Undefined None))
       = Inl \<lparr>statusCode = Some 428, message = Some ''Precondition Required''\<rparr>
   \<and> delivered (addVersion (sample_env [''stale'', ''stale'', ''accepting''] None) sample_key
                  (link ''h2'') (Given (link ''h1'')) Undefined None)
       = Succeeded ''accepted''
   \<and> getAnchoringServices (sample_env [''stale'', ''broken''] None) (getDLDomain sample_key)
       = Inr [''stale'', ''broken'']
   \<and> reply (doPut (sample_env [''stale'', ''broken''] None)
              (''broken'' @ ''/anchor/add/'' @ getAnchorId sample_key)
              (addVersion_body (link ''h2'') (Given (link ''h1'')) Undefined None))
       = Inl \<lparr>statusCode = Some 500, message = Some ''Internal Server Error''\<rparr>
   \<and> (\<exists>e. delivered (addVersion (sample_env [''stale'', ''broken''] None) sample_key
                  (link ''h2'') (Given (link ''h1'')) Undefined None) = Failed e)"
  using write_succeeds_iff_some_endpoint_accepts
    [where env = "sample_env [''stale'', ''stale'', ''accepting''] None" and keySSI = sample_key
       and services = "[''stale'', ''stale'', ''accepting'']" and newHashLinkSSI = "link ''h2''"
       and lastHashLinkSSI = "Given (link ''h1'')" and zkp = Undefined and dproof = None]
    write_succeeds_iff_some_endpoint_accepts
    [where env = "sample_env [''stale'', ''broken''] None" and keySSI = sample_key
       and services = "[''stale'', ''broken'']" and newHashLinkSSI = "link ''h2''"
       and lastHashLinkSSI = "Given (link ''h1'')" and zkp = Undefined and dproof = None]
  by (simp add: sample_env_def sample_key_def sample_doPut_def)

text \<open>
  Claim C7: a write on the network path builds one body and sends it by PUT to
  \<^verbatim>\<open>{endpoint}/anchor/add/{anchorId}\<close> for every endpoint of the list; \<^verbatim>\<open>hash.last\<close> is
  the identifier of the previous pointer when one is supplied and \<^verbatim>\<open>null\<close> otherwise,
  \<^verbatim>\<open>hash.new\<close> the identifier of the new pointer, and \<^verbatim>\<open>zkpValue\<close> and \<^verbatim>\<open>digitalProof\<close>
  are passed on as given.
\<close>

theorem one_body_put_to_every_endpoint:
  assumes "\<not> local_bypass env keySSI"
    and "getAnchoringServices env (getDLDomain keySSI) = Inr services"
    and "services \<noteq> []"
  shows "requests (addVersion env keySSI newHashLinkSSI lastHashLinkSSI zkp dproof) =
           map (\<lambda>service.
                  PUT (service @ ''/anchor/add/'' @ getAnchorId keySSI)
                    \<lparr>hash_last = (case lastHashLinkSSI of
                                    Given l \<Rightarrow> Some (getIdentifier l)
                                  | _ \<Rightarrow> None),
                     hash_new = getIdentifier newHashLinkSSI,
                     zkpValue = (case zkp of Given z \<Rightarrow> Some z | _ \<Rightarrow> None),
                     digitalProof = dproof\<rparr>)
             services"
  by (simp add: addVersion_network [OF assms] addVersion_body_def)

text \<open>Two endpoints receive the same body.\<close>

theorem one_body_put_to_every_endpoint_witness:
  "\<not> local_bypass (sample_env [''stale'', ''accepting''] None) sample_key
   \<and> getAnchoringServices (sample_env [''stale'', ''accepting''] None) (getDLDomain sample_key)
       = Inr [''stale'', ''accepting'']
   \<and> [''stale'', ''accepting''] \<noteq> []
   \<and> requests (addVersion (sample_env [''stale'', ''accepting''] None) sample_key (link ''h2'')
                 (Given (link ''h1'')) (Given ''zkp'') (Some ''sig'')) =
       [PUT ''stale/anchor/add/A''
          \<lparr>hash_last = Some ''h1'', hash_new = ''h2'', zkpValue = Some ''zkp'',
           digitalProof = Some ''sig''\<rparr>,
        PUT ''accepting/anchor/add/A''
          \<lparr>hash_last = Some ''h1'', hash_new = ''h2'', zkpValue = Some ''zkp'',
           digitalProof = Some ''sig''\<rparr>]"
  using one_body_put_to_every_endpoint
    [where env = "sample_env [''stale'', ''accepting''] None" and keySSI = sample_key
       and services = "[''stale'', ''accepting'']" and newHashLinkSSI = "link ''h2''"
       and lastHashLinkSSI = "Given (link ''h1'')" and zkp = "Given ''zkp''"
       and dproof = "Some ''sig''"]
  by (simp add: sample_env_def sample_key_def link_def)

text \<open>
  Claim C9: when every endpoint of a write on the network path rejects, the reason
  delivered is the one of the first endpoint of the Service Locator's list. It does not
  depend on when the replies arrive: a second run with the same list, in which every
  endpoint answers the same, delivers the same reason.
\<close>

theorem first_listed_rejection_is_surfaced:
  assumes "\<not> local_bypass env keySSI"
    and "getAnchoringServices env (getDLDomain keySSI) = Inr (first # others)"
    and "\<forall>service\<in>set (first # others). \<exists>e.
           reply (doPut env (service @ ''/anchor/add/'' @ getAnchorId keySSI)
                    (addVersion_body newHashLinkSSI lastHashLinkSSI zkp dproof)) = Inl e"
    and "reply (doPut env (first @ ''/anchor/add/'' @ getAnchorId keySSI)
                  (addVersion_body newHashLinkSSI lastHashLinkSSI zkp dproof)) = Inl err"
    and "\<not> local_bypass env' keySSI"
    and "getAnchoringServices env' (getDLDomain keySSI) = Inr (first # others)"
    and "\<forall>service\<in>set (first # others).
           reply (doPut env' (service @ ''/anchor/add/'' @ getAnchorId keySSI)
                    (addVersion_body newHashLinkSSI lastHashLinkSSI zkp dproof))
           = reply (doPut env (service @ ''/anchor/add/'' @ getAnchorId keySSI)
                    (addVersion_body newHashLinkSSI lastHashLinkSSI zkp dproof))"
  shows "delivered (addVersion env keySSI newHashLinkSSI lastHashLinkSSI zkp dproof)
           = Failed (PutRejected (put_rejection err))
       \<and> delivered (addVersion env' keySSI newHashLinkSSI lastHashLinkSSI zkp dproof)
           = delivered (addVersion env keySSI newHashLinkSSI lastHashLinkSSI zkp dproof)"
proof -
  have surfaced: "delivered (addVersion E keySSI newHashLinkSSI lastHashLinkSSI zkp dproof)
           = Failed (PutRejected (put_rejection err))"
    if bp: "\<not> local_bypass E keySSI"
      and loc: "getAnchoringServices E (getDLDomain keySSI) = Inr (first # others)"
      and all: "\<forall>service\<in>set (first # others). \<exists>e.
           reply (doPut E (service @ ''/anchor/add/'' @ getAnchorId keySSI)
                    (addVersion_body newHashLinkSSI lastHashLinkSSI zkp dproof)) = Inl e"
      and fst: "reply (doPut E (first @ ''/anchor/add/'' @ getAnchorId keySSI)
                  (addVersion_body newHashLinkSSI lastHashLinkSSI zkp dproof)) = Inl err"
    for E
  proof -
    let ?responses = "map (\<lambda>service. outcome (put_promise
                  (doPut E (service @ ''/anchor/add/'' @ getAnchorId keySSI)
                     (addVersion_body newHashLinkSSI lastHashLinkSSI zkp dproof))))
             (first # others)"
    from all have "\<forall>x\<in>set ?responses. is_rejected x" by (simp add: put_is_rejected)
    moreover have "?responses \<noteq> []" by simp
    ultimately obtain reason where "hd ?responses = Rejected reason"
      and f: "addVersion_then ?responses = Failed (PutRejected reason)"
      using addVersion_then_all_rejected by blast
    with fst have "reason = put_rejection err" by (simp add: put_outcome_rejected)
    with f show ?thesis
      using addVersion_network [OF bp loc, of newHashLinkSSI lastHashLinkSSI zkp dproof]
      by simp
  qed
  have "delivered (addVersion env keySSI newHashLinkSSI lastHashLinkSSI zkp dproof)
           = Failed (PutRejected (put_rejection err))"
    using assms(1,2,3,4) by (rule surfaced)
  moreover have "delivered (addVersion env' keySSI newHashLinkSSI lastHashLinkSSI zkp dproof)
           = Failed (PutRejected (put_rejection err))"
  proof (rule surfaced [OF assms(5,6)])
    show "\<forall>service\<in>set (first # others). \<exists>e.
           reply (doPut env' (service @ ''/anchor/add/'' @ getAnchorId keySSI)
                    (addVersion_body newHashLinkSSI lastHashLinkSSI zkp dproof)) = Inl e"
      using assms(3,7) by simp
    show "reply (doPut env' (first @ ''/anchor/add/'' @ getAnchorId keySSI)
                  (addVersion_body newHashLinkSSI lastHashLinkSSI zkp dproof)) = Inl err"
      using assms(4,7) by simp
  qed
  ultimately show ?thesis by simp
qed

text \<open>Endpoints \<open>[down, broken, stale]\<close>. In the first run \<open>stale\<close> answers first and
  \<open>down\<close> last, in the second run the order of arrival is turned around; both deliver
  the reason of \<open>down\<close>.\<close>

theorem first_listed_rejection_is_surfaced_witness:
  "\<not> local_bypass (sample_env [''down'', ''broken'', ''stale''] None) sample_key
   \<and> getAnchoringServices (sample_env [''down'', ''broken'', ''stale''] None)
        (getDLDomain sample_key) = Inr [''down'', ''broken'', ''stale'']
   \<and> reply (doPut (sample_env [''down'', ''broken'', ''stale''] None)
              (''down'' @ ''/anchor/add/'' @ getAnchorId sample_key)
              (addVersion_body (link ''h2'') (Given (link ''h0'')) Undefined None))
       = Inl \<lparr>statusCode = None, message = Some ''ECONNREFUSED''\<rparr>
   \<and> reply (doPut (sample_env [''down'', ''broken'', ''stale''] None)
              (''broken'' @ ''/anchor/add/'' @ getAnchorId sample_key)
              (addVersion_body (link ''h2'') (Given (link ''h0'')) Undefined None))
       = Inl \<lparr>statusCode = Some 500, message = Some ''Internal Server Error''\<rparr>
   \<and> reply (doPut (sample_env [''down'', ''broken'', ''stale''] None)
              (''stale'' @ ''/anchor/add/'' @ getAnchorId sample_key)
              (addVersion_body (link ''h2'') (Given (link ''h0'')) Undefined None))
       = Inl \<lparr>statusCode = Some 428, message = Some ''Precondition Required''\<rparr>
   \<and> \<not> local_bypass (sample_env_reversed [''down'', ''broken'', ''stale''] None) sample_key
   \<and> getAnchoringServices (sample_env_reversed [''down'', ''broken'', ''stale''] None)
        (getDLDomain sample_key) = Inr [''down'', ''broken'', ''stale'']
   \<and> repliedAt (doPut (sample_env [''down'', ''broken'', ''stale''] None)
        ''stale/anchor/add/A'' (addVersion_body (link ''h2'') (Given (link ''h0'')) Undefined None))
       < repliedAt (doPut (sample_env [''down'', ''broken'', ''stale''] None)
        ''down/anchor/add/A'' (addVersion_body (link ''h2'') (Given (link ''h0'')) Undefined None))
   \<and> repliedAt (doPut (sample_env_reversed [''down'', ''broken'', ''stale''] None)
        ''down/anchor/add/A'' (addVersion_body (link ''h2'') (Given (link ''h0'')) Undefined None))
       < repliedAt (doPut (sample_env_reversed [''down'', ''broken'', ''stale''] None)
        ''stale/anchor/add/A'' (addVersion_body (link ''h2'') (Given (link ''h0'')) Undefined None))
   \<and> delivered (addVersion (sample_env [''down'', ''broken'', ''stale''] None) sample_key
                  (link ''h2'') (Given (link ''h0'')) Undefined None)
       = Failed (PutRejected \<lparr>reason_statusCode = None, reason_message = ''ECONNREFUSED''\<rparr>)
   \<and> delivered (addVersion (sample_env_reversed [''down'', ''broken'', ''stale''] None) sample_key
                  (link ''h2'') (Given (link ''h0'')) Undefined None)
       = Failed (PutRejected \<lparr>reason_statusCode = None, reason_message = ''ECONNREFUSED''\<rparr>)"
  using first_listed_rejection_is_surfaced
    [where env = "sample_env [''down'', ''broken'', ''stale''] None"
       and env' = "sample_env_reversed [''down'', ''broken'', ''stale''] None"
       and keySSI = sample_key and first = "''down''" and others = "[''broken'', ''stale'']"
       and newHashLinkSSI = "link ''h2''" and lastHashLinkSSI = "Given (link ''h0'')"
       and zkp = Undefined and dproof = None
       and err = "\<lparr>statusCode = None, message = Some ''ECONNREFUSED''\<rparr>"]
  by (simp add: sample_env_def sample_env_reversed_def sample_key_def sample_doPut_def
      put_rejection_def)

section \<open>Claims about both paths\<close>

text \<open>
  Claim C4: when a read or a write reaches the network path and the Service Locator
  returns an empty list, the call fails with \<open>No anchoring service provided\<close>; the
  Service Locator has been asked once, and no request has been issued.
\<close>

theorem no_anchoring_service_fails_at_once:
  assumes "\<not> local_bypass env keySSI"
    and "getAnchoringServices env (getDLDomain keySSI) = Inr []"
  shows "versions env keySSI authToken =
           \<lparr>located = [getDLDomain keySSI], requests = [], cached = [],
            delivered = Failed (Message ''No anchoring service provided'')\<rparr>
       \<and> addVersion env keySSI newHashLinkSSI lastHashLinkSSI zkp dproof =
           \<lparr>located = [getDLDomain keySSI], requests = [], cached = [],
            delivered = Failed (Message ''No anchoring service provided'')\<rparr>"
  by (simp add: versions_no_service [OF assms] addVersion_no_service [OF assms])

text \<open>A read and a write in a world without endpoints.\<close>

theorem no_anchoring_service_fails_at_once_witness:
  "\<not> local_bypass (sample_env [] None) sample_key
   \<and> getAnchoringServices (sample_env [] None) (getDLDomain sample_key) = Inr []
   \<and> versions (sample_env [] None) sample_key Undefined =
           \<lparr>located = [Some ''default''], requests = [], cached = [],
            delivered = Failed (Message ''No anchoring service provided'')\<rparr>
   \<and> addVersion (sample_env [] None) sample_key (link ''h2'') (Given (link ''h1'')) Undefined None =
           \<lparr>located = [Some ''default''], requests = [], cached = [],
            delivered = Failed (Message ''No anchoring service provided'')\<rparr>"
  using no_anchoring_service_fails_at_once
    [where env = "sample_env [] None" and keySSI = sample_key and authToken = Undefined
       and newHashLinkSSI = "link ''h2''" and lastHashLinkSSI = "Given (link ''h1'')"
       and zkp = Undefined and dproof = None]
  by (simp add: sample_env_def sample_key_def)

text \<open>
  Claim C6: a read or a write is handed to the Local Cache Bypass if and only if the
  domain of the identifier is the vault domain and a cache mode is configured. The call
  is then delegated as a whole: the Service Locator is not asked, no request is issued,
  and the callback gets what the bypass delivers. The bypass write receives the anchor
  identifier and the identifier of the new pointer only; the previous pointer,
  \<^verbatim>\<open>zkpValue\<close> and \<^verbatim>\<open>digitalProof\<close> do not reach it.
\<close>

theorem bypass_iff_vault_domain_and_cache_mode:
  "(cached (versions env keySSI authToken) \<noteq> [] \<longleftrightarrow> local_bypass env keySSI)
   \<and> (cached (addVersion env keySSI newHashLinkSSI lastHashLinkSSI zkp dproof) \<noteq> []
        \<longleftrightarrow> local_bypass env keySSI)
   \<and> (local_bypass env keySSI \<longrightarrow>
        versions env keySSI authToken =
          \<lparr>located = [], requests = [], cached = [CachedVersions (getAnchorId keySSI)],
           delivered = cachedAnchoring_versions env (getAnchorId keySSI)\<rparr>
        \<and> addVersion env keySSI newHashLinkSSI lastHashLinkSSI zkp dproof =
          \<lparr>located = [], requests = [],
           cached = [CachedAddVersion (getAnchorId keySSI) (getIdentifier newHashLinkSSI)],
           delivered = cachedAnchoring_addVersion env (getAnchorId keySSI)
                         (getIdentifier newHashLinkSSI)\<rparr>)"
  using versions_cached_iff [of env keySSI authToken]
    addVersion_cached_iff [of env keySSI newHashLinkSSI lastHashLinkSSI zkp dproof]
    versions_bypass [of keySSI env authToken]
    addVersion_bypass [of keySSI env newHashLinkSSI lastHashLinkSSI zkp dproof]
  by blast

text \<open>The vault key with a cache mode is delegated; the vault key without a cache mode
  and a key of another domain are not.\<close>

theorem bypass_iff_vault_domain_and_cache_mode_witness:
  "local_bypass (sample_env [''accepting''] (Some ''fs'')) vault_key
   \<and> versions (sample_env [''accepting''] (Some ''fs'')) vault_key Undefined =
       \<lparr>located = [], requests = [], cached = [CachedVersions ''A''],
        delivered = Succeeded [link ''cached'']\<rparr>
   \<and> addVersion (sample_env [''accepting''] (Some ''fs'')) vault_key (link ''h2'')
        (Given (link ''h1'')) (Given ''zkp'') (Some ''sig'') =
       \<lparr>located = [], requests = [], cached = [CachedAddVersion ''A'' ''h2''],
        delivered = Succeeded ''cached''\<rparr>
   \<and> \<not> local_bypass (sample_env [''accepting''] None) vault_key
   \<and> cached (versions (sample_env [''accepting''] None) vault_key Undefined) = []
   \<and> \<not> local_bypass (sample_env [''accepting''] (Some ''fs'')) sample_key
   \<and> cached (addVersion (sample_env [''accepting''] (Some ''fs'')) sample_key (link ''h2'')
        (Given (link ''h1'')) (Given ''zkp'') (Some ''sig'')) = []"
  using bypass_iff_vault_domain_and_cache_mode
    [where env = "sample_env [''accepting''] (Some ''fs'')" and keySSI = vault_key
       and authToken = Undefined and newHashLinkSSI = "link ''h2''"
       and lastHashLinkSSI = "Given (link ''h1'')" and zkp = "Given ''zkp''"
       and dproof = "Some ''sig''"]
    bypass_iff_vault_domain_and_cache_mode
    [where env = "sample_env [''accepting''] None" and keySSI = vault_key
       and authToken = Undefined and newHashLinkSSI = "link ''h2''"
       and lastHashLinkSSI = "Given (link ''h1'')" and zkp = "Given ''zkp''"
       and dproof = "Some ''sig''"]
    bypass_iff_vault_domain_and_cache_mode
    [where env = "sample_env [''accepting''] (Some ''fs'')" and keySSI = sample_key
       and authToken = Undefined and newHashLinkSSI = "link ''h2''"
       and lastHashLinkSSI = "Given (link ''h1'')" and zkp = "Given ''zkp''"
       and dproof = "Some ''sig''"]
  by (simp add: sample_env_def sample_key_def vault_key_def link_def)

section \<open>Claim about the dossier builder\<close>

text \<open>
  Claim C8: when the stored identifier parses, and its recorded domain is non-empty and
  differs from the domain of the config, \<^verbatim>\<open>buildDossier\<close> goes on as
  \<^verbatim>\<open>createDossier\<close> does: it never asks the enclave to load the stored DSU or to
  create one under the stored identifier; when the shared enclave is available it asks
  for a new DSU with a template seed of the configured domain, and that new DSU is the one
  handed to \<^verbatim>\<open>updateDossier\<close>, with the config unchanged.
\<close>

theorem domain_change_creates_new_dossier:
  assumes "initialiseBuildWallet env = None"
    and "readFile env (seed conf) = Inr content"
    and "content \<noteq> []"
    and "keySSISpace_parse env content = Inr keySSI"
    and "getDLDomain keySSI = Some recorded"
    and "recorded \<noteq> []"
    and "Some recorded \<noteq> domain conf"
  shows "buildDossier env (Config conf) commands_arg =
           after [InitialiseBuildWallet, ReadFile (seed conf), Parse content]
             (createDossier env conf (case commands_arg of None \<Rightarrow> [] | Some cs \<Rightarrow> cs))
       \<and> (\<forall>k. LoadDSU k \<notin> set (actions (buildDossier env (Config conf) commands_arg))
              \<and> CreateDSU (UseSSIAsIdentifier k)
                  \<notin> set (actions (buildDossier env (Config conf) commands_arg)))
       \<and> (getSharedEnclave env = None \<longrightarrow>
            CreateDSU (TemplateSeedSSI (domain conf))
              \<in> set (actions (buildDossier env (Config conf) commands_arg)))
       \<and> (\<forall>bar. getSharedEnclave env = None
                \<and> createDSU env (TemplateSeedSSI (domain conf)) = Inr bar \<longrightarrow>
              ends (buildDossier env (Config conf) commands_arg)
                = UpdateDossier bar conf (case commands_arg of None \<Rightarrow> [] | Some cs \<Rightarrow> cs))"
proof -
  let ?commands = "case commands_arg of None \<Rightarrow> [] | Some cs \<Rightarrow> cs"
  from assms(4,5,6,7)
  have b: "builder env conf ?commands content =
             after [Parse content] (createDossier env conf ?commands)"
    by (simp add: builder_def)
  from assms(1,2,3) b
  have eq: "buildDossier env (Config conf) commands_arg =
           after [InitialiseBuildWallet, ReadFile (seed conf), Parse content]
             (createDossier env conf ?commands)"
    by (simp add: buildDossier_def after_def Let_def)
  have "ends (createDossier env conf ?commands) = UpdateDossier bar conf ?commands"
    if "getSharedEnclave env = None" and "createDSU env (TemplateSeedSSI (domain conf)) = Inr bar"
    for bar
    using that by (simp add: createDossier_def)
  then show ?thesis
    by (simp add: eq actions_after ends_after createDossier_actions)
qed

text \<open>The seed file names a DSU of domain \<open>old\<close> that the enclave could load; the
  config asks for \<open>new\<close>.\<close>

theorem domain_change_creates_new_dossier_witness:
  "initialiseBuildWallet sample_builder_env = None
   \<and> readFile sample_builder_env (seed sample_conf) = Inr ''ssi:old:A''
   \<and> ''ssi:old:A'' \<noteq> []
   \<and> keySSISpace_parse sample_builder_env ''ssi:old:A'' = Inr stored_key
   \<and> getDLDomain stored_key = Some ''old''
   \<and> ''old'' \<noteq> []
   \<and> Some ''old'' \<noteq> domain sample_conf
   \<and> loadDSU sample_builder_env stored_key = Inr 0
   \<and> buildDossier sample_builder_env (Config sample_conf) (Some [''delete /'']) =
       \<lparr>actions = [InitialiseBuildWallet, ReadFile (Some ''./seed''), Parse ''ssi:old:A'',
                   GetSharedEnclave, CreateDSU (TemplateSeedSSI (Some ''new''))],
        ends = UpdateDossier 1 sample_conf [''delete /'']\<rparr>"
  using domain_change_creates_new_dossier
    [where env = sample_builder_env and conf = sample_conf and content = "''ssi:old:A''"
       and keySSI = stored_key and recorded = "''old''" and commands_arg = "Some [''delete /'']"]
  by (simp add: sample_builder_env_def sample_conf_def stored_key_def createDossier_def after_def)

end
